theory Spec2Isabelle
  imports Main "HOL-Library.Sublist"
begin

section \<open>Streaming PDF document writer and merger\<close>

text \<open>
  A shallow embedding of \<^verbatim>\<open>pdfstreamingdocumentwriter.h/.cpp\<close>: the object visitor
  \<^verbatim>\<open>PDFStreamingWriteObjectVisitor\<close>, the writer \<^verbatim>\<open>PDFStreamingDocumentWriter\<close> and
  the merger \<^verbatim>\<open>PDFStreamingMerger\<close>. Member functions take the object they mutate and
  return it updated, next to their C++ return value. A function that may fail to return
  has an \<open>option\<close> result, \<open>None\<close> standing for a call that does not return.

  \<^verbatim>\<open>PDFInteger\<close> (a 64-bit signed integer), \<^verbatim>\<open>qint64\<close> and \<^verbatim>\<open>size_t\<close> are modelled
  by \<open>int\<close> and \<open>nat\<close>: the code does no arithmetic on them besides counting vector
  elements and bytes, so no wrap-around is involved.
\<close>

subsection \<open>Qt strings\<close>

type_synonym QByteArray = string

definition CRLF :: QByteArray where
  "CRLF = [CHR 0x0D, CHR 0x0A]"

text \<open>\<^verbatim>\<open>QString::number\<close> on an integer: the decimal digits, with a minus sign below zero.\<close>

fun digits :: "nat \<Rightarrow> string" where
  "digits n =
     (if n < 10 then [''0123456789'' ! n]
      else digits (n div 10) @ [''0123456789'' ! (n mod 10)])"

declare digits.simps [simp del]

definition number :: "int \<Rightarrow> string" where
  "number v = (if v < 0 then CHR ''-'' # digits (nat (- v)) else digits (nat v))"

text \<open>
  \<^verbatim>\<open>QString::rightJustified(width, fill, truncate)\<close>: a shorter string is padded on the
  left; a longer one is cut at position \<open>width\<close> when \<open>truncate\<close> is set and returned as
  it is otherwise.
\<close>

definition rightJustified :: "nat \<Rightarrow> char \<Rightarrow> bool \<Rightarrow> string \<Rightarrow> string" where
  "rightJustified width fill truncate s =
     (if length s < width then replicate (width - length s) fill @ s
      else if truncate then take width s
      else s)"

text \<open>\<^verbatim>\<open>QByteArray::toHex\<close>: two lowercase hexadecimal digits per byte.\<close>

definition hexByte :: "char \<Rightarrow> string" where
  "hexByte c =
     [''0123456789abcdef'' ! ((of_char c :: nat) div 16),
      ''0123456789abcdef'' ! ((of_char c :: nat) mod 16)]"

definition toHex :: "QByteArray \<Rightarrow> QByteArray" where
  "toHex data = concat (map hexByte data)"

text \<open>\<^verbatim>\<open>QByteArray::indexOf\<close>: the position of the first occurrence, or \<open>-1\<close>.\<close>

fun indexFrom :: "nat \<Rightarrow> QByteArray \<Rightarrow> char \<Rightarrow> int" where
  "indexFrom i [] c = - 1"
| "indexFrom i (x # xs) c = (if x = c then int i else indexFrom (Suc i) xs c)"

definition indexOf :: "QByteArray \<Rightarrow> char \<Rightarrow> int" where
  "indexOf data c = indexFrom 0 data c"

subsection \<open>The byte sink\<close>

text \<open>
  \<^verbatim>\<open>QIODevice\<close> belongs to Qt. The model keeps what the writer can observe of a
  sequential output device: the bytes it has accepted (\<open>pos\<close> is their count), whether it
  is writable, and a write error that stays once it has occurred. A device with a
  \<open>limit\<close> rejects the write that would exceed it. \<open>attempts\<close> counts the calls of
  \<^verbatim>\<open>write\<close> the device has received, accepted or not.
\<close>

record QIODevice =
  content :: QByteArray
  writable :: bool
  failed :: bool
  limit :: "nat option"
  attempts :: nat

definition isWritable :: "QIODevice \<Rightarrow> bool" where
  "isWritable d = writable d"

definition pos :: "QIODevice \<Rightarrow> int" where
  "pos d = int (length (content d))"

definition dev_write :: "QIODevice \<Rightarrow> QByteArray \<Rightarrow> QIODevice" where
  "dev_write d bytes =
     (if failed d \<or> \<not> writable d then d\<lparr>attempts := Suc (attempts d)\<rparr>
      else if (case limit d of None \<Rightarrow> False
               | Some n \<Rightarrow> n < length (content d) + length bytes)
      then d\<lparr>failed := True, attempts := Suc (attempts d)\<rparr>
      else d\<lparr>content := content d @ bytes, attempts := Suc (attempts d)\<rparr>)"

text \<open>A sink that accepts every write.\<close>

definition sink_ok :: "QIODevice \<Rightarrow> bool" where
  "sink_ok d = (writable d \<and> \<not> failed d \<and> limit d = None)"

subsection \<open>PDF objects\<close>

text \<open>
  \<^verbatim>\<open>PDFReal\<close> is a double. Its values are left abstract; the text Qt prints for one
  (\<^verbatim>\<open>QString::number(value, 'f', 5)\<close>) is a parameter of the model.
\<close>

typedecl PDFReal

type_synonym PDFInteger = int

text \<open>
  Modelled from the spec: \<^verbatim>\<open>PDFObjectReference\<close> is declared in \<^verbatim>\<open>pdfobject.h\<close>, which is
  not among the sources. A reference is a pair of object number and generation; the
  default-constructed reference has object number 0, the number reserved for the head of
  the free list, and a reference is valid when its object number is at least 1.
\<close>

record PDFObjectReference =
  objectNumber :: PDFInteger
  generation :: PDFInteger

definition PDFObjectReference_default :: PDFObjectReference where
  "PDFObjectReference_default = \<lparr>objectNumber = 0, generation = 0\<rparr>"

definition isValid :: "PDFObjectReference \<Rightarrow> bool" where
  "isValid r = (0 < objectNumber r)"

text \<open>
  The ten kinds of \<^verbatim>\<open>PDFObject\<close>. A dictionary is the sequence of its entries in
  insertion order; a stream is a dictionary and its content bytes.
\<close>

datatype PDFObject =
    PDFNull
  | PDFBool bool
  | PDFInt PDFInteger
  | PDFReal PDFReal
  | PDFString QByteArray
  | PDFName QByteArray
  | PDFArray "PDFObject list"
  | PDFDictionary "(QByteArray \<times> PDFObject) list"
  | PDFStream "(QByteArray \<times> PDFObject) list" QByteArray
  | PDFReference PDFObjectReference

fun isNull :: "PDFObject \<Rightarrow> bool" where
  "isNull PDFNull = True"
| "isNull _ = False"

text \<open>
  What the sources use but do not define: the fixed-point text of a real, the lexical
  class \<^verbatim>\<open>PDFLexicalAnalyzer::isRegular\<close> and the constant \<^verbatim>\<open>PDF_LIBRARY_NAME\<close>. They
  are parameters of every function below that depends on them.
\<close>

record Externals =
  number_f5 :: "PDFReal \<Rightarrow> string"
  isRegular :: "char \<Rightarrow> bool"
  PDF_LIBRARY_NAME :: string

subsection \<open>PDFStreamingWriteObjectVisitor\<close>

definition visitNull :: "QIODevice \<Rightarrow> QIODevice" where
  "visitNull d = dev_write d ''null ''"

definition visitBool :: "bool \<Rightarrow> QIODevice \<Rightarrow> QIODevice" where
  "visitBool v d = dev_write d (if v then ''true '' else ''false '')"

definition visitInt :: "PDFInteger \<Rightarrow> QIODevice \<Rightarrow> QIODevice" where
  "visitInt v d = dev_write (dev_write d (number v)) '' ''"

definition visitReal :: "Externals \<Rightarrow> PDFReal \<Rightarrow> QIODevice \<Rightarrow> QIODevice" where
  "visitReal ext v d = dev_write (dev_write d (number_f5 ext v)) '' ''"

definition visitString :: "QByteArray \<Rightarrow> QIODevice \<Rightarrow> QIODevice" where
  "visitString data d =
     (let d1 =
        (if indexOf data (CHR ''('') \<noteq> - 1 \<or> indexOf data (CHR '')'') \<noteq> - 1
            \<or> indexOf data (CHR 0x5C) \<noteq> - 1
         then dev_write (dev_write (dev_write d ''<'') (toHex data)) ''>''
         else dev_write (dev_write (dev_write d ''('') data) '')'')
      in dev_write d1 '' '')"

definition visitNameChar :: "Externals \<Rightarrow> char \<Rightarrow> QIODevice \<Rightarrow> QIODevice" where
  "visitNameChar ext c d =
     (if isRegular ext c then dev_write d [c] else dev_write (dev_write d ''#'') (toHex [c]))"

definition visitName :: "Externals \<Rightarrow> QByteArray \<Rightarrow> QIODevice \<Rightarrow> QIODevice" where
  "visitName ext name d = dev_write (fold (visitNameChar ext) name (dev_write d ''/'')) '' ''"

definition visitReference :: "PDFObjectReference \<Rightarrow> QIODevice \<Rightarrow> QIODevice" where
  "visitReference r d =
     dev_write (visitInt (PDFObjectReference.generation r) (visitInt (objectNumber r) d)) ''R ''"

text \<open>
  \<open>accept\<close> is \<^verbatim>\<open>PDFObject::accept\<close> with this visitor; \<open>acceptArray\<close> visits the
  elements in order and \<open>visitEntries\<close> is the loop of \<^verbatim>\<open>visitDictionary\<close>.
\<close>

fun accept :: "Externals \<Rightarrow> PDFObject \<Rightarrow> QIODevice \<Rightarrow> QIODevice"
  and acceptArray :: "Externals \<Rightarrow> PDFObject list \<Rightarrow> QIODevice \<Rightarrow> QIODevice"
  and visitEntries :: "Externals \<Rightarrow> (QByteArray \<times> PDFObject) list \<Rightarrow> QIODevice \<Rightarrow> QIODevice"
where
  "accept ext PDFNull d = visitNull d"
| "accept ext (PDFBool v) d = visitBool v d"
| "accept ext (PDFInt v) d = visitInt v d"
| "accept ext (PDFReal v) d = visitReal ext v d"
| "accept ext (PDFString s) d = visitString s d"
| "accept ext (PDFName n) d = visitName ext n d"
| "accept ext (PDFArray xs) d = dev_write (acceptArray ext xs (dev_write d ''[ '')) ''] ''"
| "accept ext (PDFDictionary kvs) d = dev_write (visitEntries ext kvs (dev_write d ''<< '')) ''>> ''"
| "accept ext (PDFStream kvs bytes) d =
     (let d1 = dev_write (visitEntries ext kvs (dev_write d ''<< '')) ''>> '';
          d2 = dev_write d1 ''stream'';
          d3 = dev_write d2 CRLF;
          d4 = dev_write d3 bytes;
          d5 = dev_write d4 CRLF;
          d6 = dev_write d5 ''endstream''
      in dev_write d6 CRLF)"
| "accept ext (PDFReference r) d = visitReference r d"
| "acceptArray ext [] d = d"
| "acceptArray ext (x # xs) d = acceptArray ext xs (accept ext x d)"
| "visitEntries ext [] d = d"
| "visitEntries ext ((k, v) # kvs) d = visitEntries ext kvs (accept ext v (visitName ext k d))"


definition stringBytes :: "QByteArray \<Rightarrow> QByteArray" where
  "stringBytes data =
     (if CHR ''('' \<in> set data \<or> CHR '')'' \<in> set data \<or> CHR 0x5C \<in> set data
      then ''<'' @ toHex data @ ''> ''
      else ''('' @ data @ '') '')"


subsection \<open>PDFStreamingDocumentWriter\<close>

text \<open>
  Modelled from the spec: \<^verbatim>\<open>PDFVersion\<close> (\<^verbatim>\<open>pdfobject.h\<close>, not among the sources) holds
  the two version digits, and \<^verbatim>\<open>PDFOperationResult\<close> (\<^verbatim>\<open>pdfutils.h\<close>) is success or an
  error message. \<^verbatim>\<open>tr\<close> is taken without a translation installed.
\<close>

record PDFVersion =
  major :: nat
  minor :: nat

datatype PDFOperationResult = Success | Error string

record ObjectEntry =
  offset :: PDFInteger
  generation :: PDFInteger
  isReserved :: bool

text \<open>
  \<open>m_device\<close> is the device the writer was constructed over, taken to be a non-null
  pointer, so that the null test at the head of \<^verbatim>\<open>beginDocument\<close> never fires;
  \<open>m_progress\<close> is never used and is left out.
\<close>

record PDFStreamingDocumentWriter =
  m_device :: QIODevice
  m_version :: PDFVersion
  m_isOpen :: bool
  m_objectOffsets :: "ObjectEntry list"
  m_pages :: "PDFObjectReference list"
  m_catalogReference :: PDFObjectReference
  m_infoReference :: PDFObjectReference

text \<open>The constructor: slot 0 is always free.\<close>

definition PDFStreamingDocumentWriter_new :: "QIODevice \<Rightarrow> PDFStreamingDocumentWriter" where
  "PDFStreamingDocumentWriter_new device =
     \<lparr>m_device = device,
      m_version = \<lparr>major = 1, minor = 7\<rparr>,
      m_isOpen = False,
      m_objectOffsets = [\<lparr>offset = - 1, generation = 65535, isReserved = False\<rparr>],
      m_pages = [],
      m_catalogReference = PDFObjectReference_default,
      m_infoReference = PDFObjectReference_default\<rparr>"

definition getObjectCount :: "PDFStreamingDocumentWriter \<Rightarrow> nat" where
  "getObjectCount w = length (m_objectOffsets w)"

definition getBytesWritten :: "PDFStreamingDocumentWriter \<Rightarrow> int" where
  "getBytesWritten w = pos (m_device w)"

definition isOpen :: "PDFStreamingDocumentWriter \<Rightarrow> bool" where
  "isOpen w = m_isOpen w"

definition writeCRLF :: "QIODevice \<Rightarrow> QIODevice" where
  "writeCRLF d = dev_write d CRLF"

definition objectHeader :: "PDFObjectReference \<Rightarrow> string" where
  "objectHeader r =
     number (objectNumber r) @ '' '' @ number (PDFObjectReference.generation r) @ '' obj''"

definition writeObjectHeader :: "PDFObjectReference \<Rightarrow> QIODevice \<Rightarrow> QIODevice" where
  "writeObjectHeader r d = writeCRLF (dev_write d (objectHeader r))"

definition writeObjectFooter :: "QIODevice \<Rightarrow> QIODevice" where
  "writeObjectFooter d = writeCRLF (dev_write d ''endobj'')"

definition beginDocument ::
  "Externals \<Rightarrow> PDFStreamingDocumentWriter \<Rightarrow> PDFVersion \<Rightarrow> bool \<times> PDFStreamingDocumentWriter"
where
  "beginDocument ext w version =
     (if \<not> isWritable (m_device w) then (False, w)
      else
        let d1 = dev_write (m_device w)
                   (''%PDF-'' @ number (int (major version)) @ ''.'' @ number (int (minor version)));
            d2 = writeCRLF d1;
            d3 = dev_write d2 ''% PDF producer: '';
            d4 = dev_write d3 (PDF_LIBRARY_NAME ext);
            d5 = dev_write d4 '' (PDF4QT-Opus Streaming Writer)'';
            d6 = writeCRLF d5;
            d7 = dev_write d6 ''%'';
            d8 = dev_write d7 [CHR 0xE2, CHR 0xE3, CHR 0xCF, CHR 0xD3];
            d9 = writeCRLF d8;
            d10 = writeCRLF d9
        in (True, w\<lparr>m_version := version, m_isOpen := True, m_device := d10\<rparr>))"

text \<open>
  Between header and footer \<^verbatim>\<open>writeObject\<close> and \<^verbatim>\<open>writeReservedObject\<close> call
  \<^verbatim>\<open>writeObject(object)\<close>, with one argument. The class declares one function of this
  name, \<^verbatim>\<open>writeObject(const PDFObject&, PDFInteger generation = 0)\<close>, so the call is a call
  of this function at generation 0: the one-argument function that the implementation
  file defines further down is not a declared member, and the declared
  \<^verbatim>\<open>writeObjectContent\<close> has no definition. \<^verbatim>\<open>writeObject\<close> therefore calls itself, on
  a writer that has one more slot and one more header in its sink, and its model is a
  partial function.
\<close>

partial_function (option) writeObject ::
  "Externals \<Rightarrow> PDFStreamingDocumentWriter \<Rightarrow> PDFObject \<Rightarrow> PDFInteger
     \<Rightarrow> (PDFObjectReference \<times> PDFStreamingDocumentWriter) option"
where
  "writeObject ext w obj gen =
     (if \<not> m_isOpen w then Some (PDFObjectReference_default, w)
      else
        let objNumber = int (length (m_objectOffsets w));
            reference = \<lparr>objectNumber = objNumber, generation = gen\<rparr>;
            entry = \<lparr>offset = pos (m_device w), generation = gen, isReserved = False\<rparr>;
            w1 = w\<lparr>m_objectOffsets := m_objectOffsets w @ [entry]\<rparr>;
            w2 = w1\<lparr>m_device := writeObjectHeader reference (m_device w1)\<rparr>
        in Option.bind (writeObject ext w2 obj 0)
             (\<lambda>inner. Some (reference,
                (snd inner)\<lparr>m_device := writeObjectFooter (m_device (snd inner))\<rparr>)))"

definition reserveObject ::
  "PDFStreamingDocumentWriter \<Rightarrow> PDFInteger \<Rightarrow> PDFObjectReference \<times> PDFStreamingDocumentWriter"
where
  "reserveObject w gen =
     (let objNumber = int (length (m_objectOffsets w));
          entry = \<lparr>offset = - 1, generation = gen, isReserved = True\<rparr>
      in (\<lparr>objectNumber = objNumber, generation = gen\<rparr>,
          w\<lparr>m_objectOffsets := m_objectOffsets w @ [entry]\<rparr>))"

definition writeReservedObject ::
  "Externals \<Rightarrow> PDFStreamingDocumentWriter \<Rightarrow> PDFObjectReference \<Rightarrow> PDFObject
     \<Rightarrow> (bool \<times> PDFStreamingDocumentWriter) option"
where
  "writeReservedObject ext w reference obj =
     (if \<not> m_isOpen w \<or> objectNumber reference < 0
         \<or> length (m_objectOffsets w) \<le> nat (objectNumber reference)
      then Some (False, w)
      else
        let n = nat (objectNumber reference);
            entry = m_objectOffsets w ! n
        in if \<not> isReserved entry \<or> offset entry \<noteq> - 1 then Some (False, w)
           else
             let entry' = entry\<lparr>offset := pos (m_device w), isReserved := False\<rparr>;
                 w1 = w\<lparr>m_objectOffsets := (m_objectOffsets w)[n := entry']\<rparr>;
                 w2 = w1\<lparr>m_device := writeObjectHeader reference (m_device w1)\<rparr>
             in Option.bind (writeObject ext w2 obj 0)
                  (\<lambda>inner. Some (True,
                     (snd inner)\<lparr>m_device := writeObjectFooter (m_device (snd inner))\<rparr>)))"

definition addPage ::
  "PDFStreamingDocumentWriter \<Rightarrow> PDFObjectReference \<Rightarrow> PDFStreamingDocumentWriter"
where
  "addPage w pageReference = w\<lparr>m_pages := m_pages w @ [pageReference]\<rparr>"

definition setCatalogReference ::
  "PDFStreamingDocumentWriter \<Rightarrow> PDFObjectReference \<Rightarrow> PDFStreamingDocumentWriter"
where
  "setCatalogReference w catalogReference = w\<lparr>m_catalogReference := catalogReference\<rparr>"

definition setInfoReference ::
  "PDFStreamingDocumentWriter \<Rightarrow> PDFObjectReference \<Rightarrow> PDFStreamingDocumentWriter"
where
  "setInfoReference w infoReference = w\<lparr>m_infoReference := infoReference\<rparr>"

text \<open>
  \<^verbatim>\<open>PDFObjectFactory\<close> builds a dictionary whose entries are in the order of the
  \<^verbatim>\<open>beginDictionaryItem\<close> calls.
\<close>

definition pageTreeObject :: "PDFObjectReference list \<Rightarrow> PDFObject" where
  "pageTreeObject pages =
     PDFDictionary
       [(''Type'', PDFName ''Pages''),
        (''Kids'', PDFArray (map PDFReference pages)),
        (''Count'', PDFInt (int (length pages)))]"

definition createPageTree ::
  "Externals \<Rightarrow> PDFStreamingDocumentWriter
     \<Rightarrow> (PDFObjectReference \<times> PDFStreamingDocumentWriter) option"
where
  "createPageTree ext w = writeObject ext w (pageTreeObject (m_pages w)) 0"

definition catalogObject :: "PDFObjectReference \<Rightarrow> PDFObject" where
  "catalogObject pageTreeRoot =
     PDFDictionary [(''Type'', PDFName ''Catalog''), (''Pages'', PDFReference pageTreeRoot)]"

definition createCatalog ::
  "Externals \<Rightarrow> PDFStreamingDocumentWriter \<Rightarrow> PDFObjectReference
     \<Rightarrow> (PDFObjectReference \<times> PDFStreamingDocumentWriter) option"
where
  "createCatalog ext w pageTreeRoot = writeObject ext w (catalogObject pageTreeRoot) 0"

text \<open>
  The parts of \<^verbatim>\<open>endDocument\<close>, in the order of the function body: the search for a
  reserved object that was never written, the default catalog, the cross-reference
  table and the trailer.
\<close>

definition unwrittenReserved :: "ObjectEntry list \<Rightarrow> nat option" where
  "unwrittenReserved entries =
     find (\<lambda>i. isReserved (entries ! i) \<and> offset (entries ! i) = - 1) [1..<length entries]"

definition ensureCatalog ::
  "Externals \<Rightarrow> PDFStreamingDocumentWriter \<Rightarrow> PDFStreamingDocumentWriter option"
where
  "ensureCatalog ext w =
     (if \<not> isValid (m_catalogReference w)
      then
        Option.bind (createPageTree ext w)
          (\<lambda>tree. Option.bind (createCatalog ext (snd tree) (fst tree))
             (\<lambda>catalog. Some ((snd catalog)\<lparr>m_catalogReference := fst catalog\<rparr>)))
      else Some w)"

definition xrefRow :: "nat \<Rightarrow> ObjectEntry \<Rightarrow> QIODevice \<Rightarrow> QIODevice" where
  "xrefRow i entry d =
     (let gen = ObjectEntry.generation entry;
          off = (if offset entry = - 1 then 0 else offset entry);
          offsetString = rightJustified 10 (CHR ''0'') True (number off);
          generationString = rightJustified 5 (CHR ''0'') True (number gen);
          d1 = dev_write d offsetString;
          d2 = dev_write d1 '' '';
          d3 = dev_write d2 generationString;
          d4 = dev_write d3 '' '';
          d5 = dev_write d4 (if i = 0 \<or> offset entry = - 1 then ''f'' else ''n'')
      in writeCRLF d5)"

definition writeXref :: "ObjectEntry list \<Rightarrow> QIODevice \<Rightarrow> QIODevice" where
  "writeXref entries d =
     (let d1 = dev_write d ''xref'';
          d2 = writeCRLF d1;
          d3 = dev_write d2 (''0 '' @ number (int (length entries)));
          d4 = writeCRLF d3
      in fold (\<lambda>i. xrefRow i (entries ! i)) [0..<length entries] d4)"

definition trailerObject :: "PDFStreamingDocumentWriter \<Rightarrow> PDFObject" where
  "trailerObject w =
     PDFDictionary
       ([(''Size'', PDFInt (int (length (m_objectOffsets w)))),
         (''Root'', PDFReference (m_catalogReference w))]
        @ (if isValid (m_infoReference w)
           then [(''Info'', PDFReference (m_infoReference w))] else []))"

definition writeTrailer ::
  "Externals \<Rightarrow> PDFStreamingDocumentWriter \<Rightarrow> PDFInteger \<Rightarrow> QIODevice \<Rightarrow> QIODevice"
where
  "writeTrailer ext w xrefOffset d =
     (let d1 = dev_write d ''trailer'';
          d2 = writeCRLF d1;
          d3 = accept ext (trailerObject w) d2;
          d4 = writeCRLF d3;
          d5 = dev_write d4 ''startxref'';
          d6 = writeCRLF d5;
          d7 = dev_write d6 (number xrefOffset);
          d8 = writeCRLF d7
      in dev_write d8 ''%%EOF'')"

definition endDocument ::
  "Externals \<Rightarrow> PDFStreamingDocumentWriter
     \<Rightarrow> (PDFOperationResult \<times> PDFStreamingDocumentWriter) option"
where
  "endDocument ext w =
     (if \<not> m_isOpen w then Some (Error ''Document is not open.'', w)
      else
        case unwrittenReserved (m_objectOffsets w) of
          Some i \<Rightarrow>
            Some (Error (''Reserved object '' @ number (int i) @ '' was never written.''), w)
        | None \<Rightarrow>
            Option.bind (ensureCatalog ext w)
              (\<lambda>w1.
                 let xrefOffset = pos (m_device w1);
                     d1 = writeXref (m_objectOffsets w1) (m_device w1);
                     d2 = writeTrailer ext w1 xrefOffset d1
                 in Some (Success, w1\<lparr>m_device := d2, m_isOpen := False\<rparr>)))"

subsection \<open>PDFStreamingMerger\<close>

text \<open>
  Modelled from the spec: \<^verbatim>\<open>PDFDocument\<close>, \<^verbatim>\<open>PDFObjectStorage\<close> and \<^verbatim>\<open>PDFCatalog\<close>
  (\<^verbatim>\<open>pdfdocument.h\<close>, \<^verbatim>\<open>pdfcatalog.h\<close>) are not among the sources. A document provides
  an ordered slot array of generation and value, indexed by object number, where a null
  value marks an empty slot, and an ordered list of pages, each with its page reference.
  A page pointer may be null in the code; such a page is \<open>None\<close>.
\<close>

record Entry =
  generation :: PDFInteger
  object :: PDFObject

record PDFDocument =
  objects :: "Entry list"
  pages :: "PDFObjectReference option list"

type_synonym ReferenceMapping = "PDFObjectReference \<Rightarrow> PDFObjectReference option"

text \<open>
  Modelled from the spec: \<^verbatim>\<open>PDFObjectUtils::replaceReferences\<close> (\<^verbatim>\<open>pdfobjectutils.h\<close>) is
  not among the sources. It returns a copy of the object in which every reference that
  the mapping has is replaced by its image and every other reference is kept; it
  descends into arrays, dictionary values and stream dictionaries, and copies the stream
  content unchanged.
\<close>

fun replaceReferences :: "PDFObject \<Rightarrow> ReferenceMapping \<Rightarrow> PDFObject"
  and replaceReferencesArray :: "PDFObject list \<Rightarrow> ReferenceMapping \<Rightarrow> PDFObject list"
  and replaceReferencesEntries ::
    "(QByteArray \<times> PDFObject) list \<Rightarrow> ReferenceMapping \<Rightarrow> (QByteArray \<times> PDFObject) list"
where
  "replaceReferences (PDFReference r) M =
     (case M r of Some r' \<Rightarrow> PDFReference r' | None \<Rightarrow> PDFReference r)"
| "replaceReferences (PDFArray xs) M = PDFArray (replaceReferencesArray xs M)"
| "replaceReferences (PDFDictionary kvs) M = PDFDictionary (replaceReferencesEntries kvs M)"
| "replaceReferences (PDFStream kvs bytes) M = PDFStream (replaceReferencesEntries kvs M) bytes"
| "replaceReferences PDFNull M = PDFNull"
| "replaceReferences (PDFBool v) M = PDFBool v"
| "replaceReferences (PDFInt v) M = PDFInt v"
| "replaceReferences (PDFReal v) M = PDFReal v"
| "replaceReferences (PDFString s) M = PDFString s"
| "replaceReferences (PDFName n) M = PDFName n"
| "replaceReferencesArray [] M = []"
| "replaceReferencesArray (x # xs) M = replaceReferences x M # replaceReferencesArray xs M"
| "replaceReferencesEntries [] M = []"
| "replaceReferencesEntries ((k, v) # kvs) M =
     (k, replaceReferences v M) # replaceReferencesEntries kvs M"

text \<open>
  \<^verbatim>\<open>std::map::operator[]\<close>: the value stored under the key; a key that is absent is
  first inserted with a default-constructed value.
\<close>

definition map_subscript ::
  "ReferenceMapping \<Rightarrow> PDFObjectReference \<Rightarrow> PDFObjectReference \<times> ReferenceMapping"
where
  "map_subscript M k =
     (case M k of
        Some v \<Rightarrow> (v, M)
      | None \<Rightarrow> (PDFObjectReference_default, M(k \<mapsto> PDFObjectReference_default)))"

text \<open>
  The merger owns the device and the writer built over it; the model keeps the device
  inside the writer. \<open>m_outputPath\<close> and \<open>m_progress\<close> play no part in \<^verbatim>\<open>addDocument\<close>.
\<close>

record PDFStreamingMerger =
  m_writer :: "PDFStreamingDocumentWriter option"
  m_totalPages :: nat
  m_totalDocuments :: nat

definition oldRef :: "Entry list \<Rightarrow> nat \<Rightarrow> PDFObjectReference" where
  "oldRef objs i = \<lparr>objectNumber = int i, generation = Entry.generation (objs ! i)\<rparr>"

text \<open>The body of the first loop of \<^verbatim>\<open>addDocument\<close>, and the loop.\<close>

definition reserveStep ::
  "Entry list \<Rightarrow> nat \<Rightarrow> PDFStreamingDocumentWriter \<times> ReferenceMapping
     \<Rightarrow> PDFStreamingDocumentWriter \<times> ReferenceMapping"
where
  "reserveStep objs i st =
     (case st of (w, M) \<Rightarrow>
        if \<not> isNull (object (objs ! i))
        then (case reserveObject w 0 of (newRef, w') \<Rightarrow> (w', M(oldRef objs i \<mapsto> newRef)))
        else (w, M))"

definition reservePass ::
  "Entry list \<Rightarrow> PDFStreamingDocumentWriter
     \<Rightarrow> PDFStreamingDocumentWriter \<times> ReferenceMapping"
where
  "reservePass objs w = fold (reserveStep objs) [1..<length objs] (w, Map.empty)"

text \<open>
  The body of the second loop, and the loop. \<^verbatim>\<open>writeReservedObject\<close> may fail to
  return, and then neither does the loop.
\<close>

definition emitStep ::
  "Externals \<Rightarrow> Entry list \<Rightarrow> nat \<Rightarrow> PDFStreamingDocumentWriter \<times> ReferenceMapping
     \<Rightarrow> (PDFStreamingDocumentWriter \<times> ReferenceMapping) option"
where
  "emitStep ext objs i st =
     (case st of (w, M) \<Rightarrow>
        if \<not> isNull (object (objs ! i))
        then (case map_subscript M (oldRef objs i) of (newRef, M1) \<Rightarrow>
                let updatedObject = replaceReferences (object (objs ! i)) M1
                in Option.bind (writeReservedObject ext w newRef updatedObject)
                     (\<lambda>written. Some (snd written, M1)))
        else Some (w, M))"

fun emitLoop ::
  "Externals \<Rightarrow> Entry list \<Rightarrow> nat list \<Rightarrow> PDFStreamingDocumentWriter \<times> ReferenceMapping
     \<Rightarrow> (PDFStreamingDocumentWriter \<times> ReferenceMapping) option"
where
  "emitLoop ext objs [] st = Some st"
| "emitLoop ext objs (i # is) st = Option.bind (emitStep ext objs i st) (emitLoop ext objs is)"

definition emitPass ::
  "Externals \<Rightarrow> Entry list \<Rightarrow> PDFStreamingDocumentWriter \<times> ReferenceMapping
     \<Rightarrow> (PDFStreamingDocumentWriter \<times> ReferenceMapping) option"
where
  "emitPass ext objs st = emitLoop ext objs [1..<length objs] st"

text \<open>The body of the loop over the pages of the catalog, and the loop.\<close>

definition pageStep ::
  "ReferenceMapping \<Rightarrow> PDFObjectReference option \<Rightarrow> PDFStreamingDocumentWriter \<times> nat
     \<Rightarrow> PDFStreamingDocumentWriter \<times> nat"
where
  "pageStep M page st =
     (case st of (w, totalPages) \<Rightarrow>
        case page of
          None \<Rightarrow> (w, totalPages)
        | Some oldPageRef \<Rightarrow>
            (case M oldPageRef of
               Some newPageRef \<Rightarrow> (addPage w newPageRef, Suc totalPages)
             | None \<Rightarrow> (w, totalPages)))"

definition pagePass ::
  "ReferenceMapping \<Rightarrow> PDFObjectReference option list \<Rightarrow> PDFStreamingDocumentWriter \<times> nat
     \<Rightarrow> PDFStreamingDocumentWriter \<times> nat"
where
  "pagePass M ps st = fold (pageStep M) ps st"

definition addDocument ::
  "Externals \<Rightarrow> PDFStreamingMerger \<Rightarrow> PDFDocument \<Rightarrow> int \<Rightarrow> bool
     \<Rightarrow> (bool \<times> PDFStreamingMerger) option"
where
  "addDocument ext m document documentIndex namespaceFields =
     (case m_writer m of
        None \<Rightarrow> Some (False, m)
      | Some w \<Rightarrow>
          if \<not> isOpen w then Some (False, m)
          else
            Option.bind (emitPass ext (objects document) (reservePass (objects document) w))
              (\<lambda>emitted.
                 case pagePass (snd emitted) (pages document) (fst emitted, m_totalPages m) of
                   (w3, totalPages) \<Rightarrow>
                     Some (True, m\<lparr>m_writer := Some w3, m_totalPages := totalPages,
                                   m_totalDocuments := Suc (m_totalDocuments m)\<rparr>)))"

subsection \<open>Predicates and example values used in the statements\<close>

text \<open>
  A slot that was reserved and has not been written, and a reference that passes the
  tests of \<^verbatim>\<open>writeReservedObject\<close>: its object number denotes an existing slot that is
  reserved and not yet written.
\<close>

definition unfulfilled :: "ObjectEntry \<Rightarrow> bool" where
  "unfulfilled e = (isReserved e \<and> offset e = - 1)"

definition canFulfil :: "PDFStreamingDocumentWriter \<Rightarrow> PDFObjectReference \<Rightarrow> bool" where
  "canFulfil w r =
     (0 \<le> objectNumber r \<and> nat (objectNumber r) < length (m_objectOffsets w)
      \<and> unfulfilled (m_objectOffsets w ! nat (objectNumber r)))"

text \<open>
  Concrete values for the examples: externals with every character regular, an empty
  sink that accepts every write, the writer over it as constructed and after
  \<^verbatim>\<open>beginDocument\<close>, and the open writer after one and after two calls of
  \<^verbatim>\<open>reserveObject(0)\<close> and after \<^verbatim>\<open>setCatalogReference\<close> with the reference \<open>(1, 0)\<close>.
\<close>

definition exampleExternals :: Externals where
  "exampleExternals =
     \<lparr>number_f5 = (\<lambda>v. ''0.00000''), isRegular = (\<lambda>c. True), PDF_LIBRARY_NAME = ''PDF4QT''\<rparr>"

definition emptySink :: QIODevice where
  "emptySink = \<lparr>content = [], writable = True, failed = False, limit = None, attempts = 0\<rparr>"

definition createdWriter :: PDFStreamingDocumentWriter where
  "createdWriter = PDFStreamingDocumentWriter_new emptySink"

definition openWriter :: PDFStreamingDocumentWriter where
  "openWriter =
     snd (beginDocument exampleExternals (PDFStreamingDocumentWriter_new emptySink)
            \<lparr>major = 1, minor = 7\<rparr>)"

definition reservedWriter :: PDFStreamingDocumentWriter where
  "reservedWriter = snd (reserveObject openWriter 0)"

definition twoReservedWriter :: PDFStreamingDocumentWriter where
  "twoReservedWriter = snd (reserveObject reservedWriter 0)"

definition catalogWriter :: PDFStreamingDocumentWriter where
  "catalogWriter = setCatalogReference openWriter \<lparr>objectNumber = 1, generation = 0\<rparr>"




text \<open>
  The bytes of one row of the cross-reference table, as \<open>xrefRow\<close> computes them; the
  claimed form of a row, with the offset as a 10-digit and the generation as a 5-digit
  zero-padded decimal; the cross-reference section for a given row format; and what
  follows the section in the file.
\<close>

definition xrefRowBytes :: "nat \<Rightarrow> ObjectEntry \<Rightarrow> QByteArray" where
  "xrefRowBytes i entry =
     rightJustified 10 (CHR ''0'') True (number (if offset entry = - 1 then 0 else offset entry))
     @ '' '' @ rightJustified 5 (CHR ''0'') True (number (ObjectEntry.generation entry))
     @ '' '' @ (if i = 0 \<or> offset entry = - 1 then ''f'' else ''n'') @ CRLF"






text \<open>
  The writer at the moment \<^verbatim>\<open>writeObject(object, gen)\<close> on an open writer makes its inner
  call: the new slot is in the table and the header is in the sink.
\<close>

definition atInnerCall :: "PDFStreamingDocumentWriter \<Rightarrow> PDFInteger \<Rightarrow> PDFStreamingDocumentWriter" where
  "atInnerCall w gen =
     w\<lparr>m_objectOffsets := m_objectOffsets w
          @ [\<lparr>offset = pos (m_device w), generation = gen, isReserved = False\<rparr>],
       m_device := writeObjectHeader
          \<lparr>objectNumber = int (length (m_objectOffsets w)), generation = gen\<rparr> (m_device w)\<rparr>"

subsection \<open>What the first loop of the merger produces\<close>

text \<open>
  The source slots that hold an object, in ascending order (slot 0 is the head of the
  free list and is never visited); the pairing of each of them with the object number
  it is given when numbers are allocated from \<open>n\<close> on; the destination reference, at
  generation 0; the mapping from source references to destination references; and the
  entry of a reserved slot.
\<close>

definition liveSlots :: "Entry list \<Rightarrow> nat list" where
  "liveSlots objs = filter (\<lambda>i. \<not> isNull (object (objs ! i))) [1..<length objs]"

definition allocation :: "nat list \<Rightarrow> nat \<Rightarrow> (nat \<times> nat) list" where
  "allocation slots n = zip slots [n..<n + length slots]"

definition newRef :: "nat \<Rightarrow> PDFObjectReference" where
  "newRef k = \<lparr>objectNumber = int k, generation = 0\<rparr>"

definition mappingOf :: "Entry list \<Rightarrow> (nat \<times> nat) list \<Rightarrow> ReferenceMapping" where
  "mappingOf objs al = map_of (map (\<lambda>(i, k). (oldRef objs i, newRef k)) al)"

definition reservedEntry :: ObjectEntry where
  "reservedEntry = \<lparr>offset = - 1, generation = 0, isReserved = True\<rparr>"

text \<open>
  A document with one object, which refers to itself and is the only page, a document
  without objects, and a merger over the open example writer.
\<close>

definition exampleDocument :: PDFDocument where
  "exampleDocument =
     \<lparr>objects =
        [\<lparr>generation = 65535, object = PDFNull\<rparr>,
         \<lparr>generation = 3, object = PDFReference \<lparr>objectNumber = 1, generation = 3\<rparr>\<rparr>],
      pages = [Some \<lparr>objectNumber = 1, generation = 3\<rparr>]\<rparr>"

definition emptyDocument :: PDFDocument where
  "emptyDocument = \<lparr>objects = [\<lparr>generation = 65535, object = PDFNull\<rparr>], pages = []\<rparr>"

definition exampleMerger :: PDFStreamingMerger where
  "exampleMerger = \<lparr>m_writer = Some openWriter, m_totalPages = 0, m_totalDocuments = 0\<rparr>"

section \<open>Properties\<close>

subsection \<open>The sink and the visitor\<close>

lemma dev_write_ok:
  "sink_ok d \<Longrightarrow> dev_write d bytes = d\<lparr>content := content d @ bytes, attempts := Suc (attempts d)\<rparr>"
  by (simp add: dev_write_def sink_ok_def)

lemma sink_ok_dev_write [simp]: "sink_ok d \<Longrightarrow> sink_ok (dev_write d bytes)"
  by (simp add: dev_write_def sink_ok_def)

lemma content_dev_write [simp]: "sink_ok d \<Longrightarrow> content (dev_write d bytes) = content d @ bytes"
  by (simp add: dev_write_def sink_ok_def)

lemma sink_ok_writeCRLF [simp]: "sink_ok d \<Longrightarrow> sink_ok (writeCRLF d)"
  by (simp add: writeCRLF_def)

lemma content_writeCRLF [simp]: "sink_ok d \<Longrightarrow> content (writeCRLF d) = content d @ CRLF"
  by (simp add: writeCRLF_def)

lemma indexFrom_eq: "(indexFrom i data c \<noteq> - 1) = (c \<in> set data)"
  by (induction data arbitrary: i) auto

lemma indexOf_eq: "(indexOf data c \<noteq> - 1) = (c \<in> set data)"
  by (simp add: indexOf_def indexFrom_eq)






lemma content_emptySink: "content emptySink = []"
  by (simp add: emptySink_def)

lemma sink_ok_emptySink: "sink_ok emptySink"
  by (simp add: sink_ok_def emptySink_def)

text \<open>
  C8: the visitor writes a string in hex form \<open><...>\<close> exactly when its bytes contain
  an opening parenthesis, a closing parenthesis or a backslash, and in literal form
  \<open>(...)\<close> otherwise; one space follows in both cases.
\<close>

theorem visitString_hex_or_literal:
  "visitString s d =
     dev_write
       (if CHR ''('' \<in> set s \<or> CHR '')'' \<in> set s \<or> CHR 0x5C \<in> set s
        then dev_write (dev_write (dev_write d ''<'') (toHex s)) ''>''
        else dev_write (dev_write (dev_write d ''('') s) '')'')
       '' '' \<and>
   (sink_ok d \<longrightarrow>
      content (visitString s d) =
        content d @
        (if CHR ''('' \<in> set s \<or> CHR '')'' \<in> set s \<or> CHR 0x5C \<in> set s
         then ''<'' @ toHex s @ ''>'' @ '' ''
         else ''('' @ s @ '')'' @ '' ''))"
  using indexOf_eq [of s]
  by (simp add: visitString_def stringBytes_def Let_def)

theorem visitString_hex_or_literal_witness:
  "sink_ok emptySink \<and>
   content (visitString ''a(b)c'' emptySink) = ''<6128622963> '' \<and>
   content (visitString ''hello'' emptySink) = ''(hello) ''"
  using visitString_hex_or_literal [of "''a(b)c''" emptySink, THEN conjunct2]
    visitString_hex_or_literal [of "''hello''" emptySink, THEN conjunct2]
  by (simp add: sink_ok_emptySink content_emptySink toHex_def hexByte_def)

subsection \<open>A sink whose writes fail\<close>

lemma attempts_dev_write [simp]: "attempts (dev_write d bytes) = Suc (attempts d)"
  by (simp add: dev_write_def)

lemma failed_dev_write [simp]: "failed d \<Longrightarrow> failed (dev_write d bytes)"
  by (simp add: dev_write_def)

lemma content_dev_write_failed [simp]: "failed d \<Longrightarrow> content (dev_write d bytes) = content d"
  by (simp add: dev_write_def)

lemma attempts_writeCRLF [simp]: "attempts (writeCRLF d) = Suc (attempts d)"
  by (simp add: writeCRLF_def)

lemma failed_writeCRLF [simp]: "failed d \<Longrightarrow> failed (writeCRLF d)"
  by (simp add: writeCRLF_def)

lemma content_writeCRLF_failed [simp]: "failed d \<Longrightarrow> content (writeCRLF d) = content d"
  by (simp add: writeCRLF_def)


















lemma length_rightJustified_truncate [simp]: "length (rightJustified n c True s) = n"
  by (simp add: rightJustified_def)

lemma length_CRLF [simp]: "length CRLF = 2"
  by (simp add: CRLF_def)








lemma oldRef_inj: "oldRef objs i = oldRef objs j \<Longrightarrow> i = j"
  by (simp add: oldRef_def)

lemma allocation_Cons: "allocation (i # slots) n = (i, n) # allocation slots (Suc n)"
  using upt_conv_Cons [of n "n + Suc (length slots)"]
  by (simp add: allocation_def del: upt_Suc)

lemma map_fst_allocation: "map fst (allocation slots n) = slots"
  by (simp add: allocation_def)

lemma fst_set_allocation: "fst ` set (allocation slots n) = set slots"
proof -
  have "map fst (allocation slots n) = slots" by (simp add: allocation_def)
  then show ?thesis by (metis set_map)
qed

lemma dom_mappingOf: "dom (mappingOf objs (allocation slots n)) = oldRef objs ` set slots"
proof -
  have "dom (mappingOf objs (allocation slots n))
          = fst ` set (map (\<lambda>(i, k). (oldRef objs i, newRef k)) (allocation slots n))"
    by (simp add: mappingOf_def dom_map_of_conv_image_fst)
  also have "\<dots> = oldRef objs ` fst ` set (allocation slots n)"
    by (auto simp add: image_iff split_beta) force+
  finally show ?thesis by (simp add: fst_set_allocation)
qed

lemma mappingOf_Cons:
  "mappingOf objs ((i, k) # al) = (mappingOf objs al)(oldRef objs i \<mapsto> newRef k)"
  by (simp add: mappingOf_def)

lemma reserve_fold:
  "distinct is \<Longrightarrow>
   fold (reserveStep objs) is (w, M) =
     (w\<lparr>m_objectOffsets := m_objectOffsets w
          @ replicate (length (filter (\<lambda>i. \<not> isNull (object (objs ! i))) is)) reservedEntry\<rparr>,
      M ++ mappingOf objs
             (allocation (filter (\<lambda>i. \<not> isNull (object (objs ! i))) is) (length (m_objectOffsets w))))"
proof (induction "is" arbitrary: w M)
  case Nil
  then show ?case by (simp add: allocation_def mappingOf_def)
next
  case (Cons i "is")
  let ?live = "\<lambda>i. \<not> isNull (object (objs ! i))"
  show ?case
  proof (cases "?live i")
    case False
    then show ?thesis using Cons by (simp add: reserveStep_def)
  next
    case True
    let ?n = "length (m_objectOffsets w)"
    let ?w1 = "w\<lparr>m_objectOffsets := m_objectOffsets w @ [reservedEntry]\<rparr>"
    let ?M1 = "M(oldRef objs i \<mapsto> newRef ?n)"
    let ?Z = "mappingOf objs (allocation (filter ?live is) (Suc ?n))"
    have step: "reserveStep objs i (w, M) = (?w1, ?M1)"
      using True by (simp add: reserveStep_def reserveObject_def Let_def reservedEntry_def newRef_def)
    have "oldRef objs i \<notin> dom ?Z"
      using Cons.prems by (auto simp add: dom_mappingOf dest: oldRef_inj)
    then have m: "?M1 ++ ?Z = (M ++ ?Z)(oldRef objs i \<mapsto> newRef ?n)"
      by (rule map_add_upd_left)
    have "fold (reserveStep objs) (i # is) (w, M) = fold (reserveStep objs) is (?w1, ?M1)"
      by (simp add: step)
    also have "\<dots> = (?w1\<lparr>m_objectOffsets := m_objectOffsets ?w1
                          @ replicate (length (filter ?live is)) reservedEntry\<rparr>, ?M1 ++ ?Z)"
      using Cons by simp
    finally have f: "fold (reserveStep objs) (i # is) (w, M) =
        (?w1\<lparr>m_objectOffsets := m_objectOffsets ?w1
                          @ replicate (length (filter ?live is)) reservedEntry\<rparr>,
         (M ++ ?Z)(oldRef objs i \<mapsto> newRef ?n))"
      by (simp only: m)
    have t: "M ++ mappingOf objs (allocation (filter ?live (i # is)) ?n)
               = (M ++ ?Z)(oldRef objs i \<mapsto> newRef ?n)"
    proof -
      have "filter ?live (i # is) = i # filter ?live is" using True by simp
      then show ?thesis by (simp only: allocation_Cons mappingOf_Cons map_add_upd)
    qed
    have l: "length (filter ?live (i # is)) = Suc (length (filter ?live is))"
      using True by simp
    show ?thesis unfolding f t l by (simp add: fun_upd_def)
  qed
qed

lemma mappingOf_hit:
  "distinct slots \<Longrightarrow> (i, k) \<in> set (allocation slots n) \<Longrightarrow>
   mappingOf objs (allocation slots n) (oldRef objs i) = Some (newRef k)"
proof -
  assume d: "distinct slots" and a: "(i, k) \<in> set (allocation slots n)"
  have "map fst (map (\<lambda>(i, k). (oldRef objs i, newRef k)) (allocation slots n))
          = map (oldRef objs) (map fst (allocation slots n))"
    by (simp add: split_beta comp_def)
  then have "map fst (map (\<lambda>(i, k). (oldRef objs i, newRef k)) (allocation slots n))
          = map (oldRef objs) slots"
    by (simp only: map_fst_allocation)
  moreover have "distinct (map (oldRef objs) slots)"
    using d by (simp add: distinct_map inj_on_def oldRef_def)
  ultimately have "distinct (map fst (map (\<lambda>(i, k). (oldRef objs i, newRef k)) (allocation slots n)))"
    by simp
  moreover have "(oldRef objs i, newRef k) \<in> set (map (\<lambda>(i, k). (oldRef objs i, newRef k)) (allocation slots n))"
    using a by force
  ultimately show ?thesis unfolding mappingOf_def by (rule map_of_is_SomeI)
qed

lemma unwrittenReserved_Some:
  "unwrittenReserved es = Some i \<longleftrightarrow>
     (1 \<le> i \<and> i < length es \<and> unfulfilled (es ! i) \<and> (\<forall>j. 1 \<le> j \<and> j < i \<longrightarrow> \<not> unfulfilled (es ! j)))"
proof
  assume "unwrittenReserved es = Some i"
  then obtain k where k: "k < length [1..<length es]" "unfulfilled (es ! ([1..<length es] ! k))"
      "i = [1..<length es] ! k" "\<forall>j<k. \<not> unfulfilled (es ! ([1..<length es] ! j))"
    unfolding unwrittenReserved_def find_Some_iff unfulfilled_def by blast
  have ik: "i = 1 + k" using k(1,3) by simp
  have "\<not> unfulfilled (es ! j)" if "1 \<le> j" "j < i" for j
  proof -
    have "j - 1 < k" using that ik by simp
    then have "\<not> unfulfilled (es ! ([1..<length es] ! (j - 1)))" using k(4) by blast
    moreover have "[1..<length es] ! (j - 1) = j" using that ik k(1) by simp
    ultimately show ?thesis by simp
  qed
  then show "1 \<le> i \<and> i < length es \<and> unfulfilled (es ! i) \<and> (\<forall>j. 1 \<le> j \<and> j < i \<longrightarrow> \<not> unfulfilled (es ! j))"
    using k ik by auto
next
  assume a: "1 \<le> i \<and> i < length es \<and> unfulfilled (es ! i) \<and> (\<forall>j. 1 \<le> j \<and> j < i \<longrightarrow> \<not> unfulfilled (es ! j))"
  have "\<exists>k<length [1..<length es]. unfulfilled (es ! ([1..<length es] ! k)) \<and> i = [1..<length es] ! k
          \<and> (\<forall>j<k. \<not> unfulfilled (es ! ([1..<length es] ! j)))"
  proof (intro exI[of _ "i - 1"] conjI allI impI)
    show "i - 1 < length [1..<length es]" using a by auto
    show "unfulfilled (es ! ([1..<length es] ! (i - 1)))" using a by simp
    show "i = [1..<length es] ! (i - 1)" using a by simp
    fix j assume j: "j < i - 1"
    then have "[1..<length es] ! j = 1 + j" using a by auto
    moreover have "\<not> unfulfilled (es ! (1 + j))" using a j by auto
    ultimately show "\<not> unfulfilled (es ! ([1..<length es] ! j))" by simp
  qed
  then show "unwrittenReserved es = Some i"
    unfolding unwrittenReserved_def find_Some_iff unfulfilled_def by blast
qed

lemma unwrittenReserved_None:
  "unwrittenReserved es = None \<longleftrightarrow> (\<forall>i. 1 \<le> i \<and> i < length es \<longrightarrow> \<not> unfulfilled (es ! i))"
  unfolding unwrittenReserved_def find_None_iff unfulfilled_def
  by auto

lemma number_1: "number 1 = ''1''"
  by (simp add: number_def digits.simps)


lemma beginDocument_ok:
  assumes "sink_ok (m_device w)"
  shows "fst (beginDocument ext w v)"
    and "m_isOpen (snd (beginDocument ext w v))"
    and "sink_ok (m_device (snd (beginDocument ext w v)))"
    and "m_objectOffsets (snd (beginDocument ext w v)) = m_objectOffsets w"
    and "m_pages (snd (beginDocument ext w v)) = m_pages w"
    and "m_catalogReference (snd (beginDocument ext w v)) = m_catalogReference w"
    and "m_infoReference (snd (beginDocument ext w v)) = m_infoReference w"
  using assms by (simp_all add: beginDocument_def isWritable_def Let_def sink_ok_def[of "m_device w"])

lemma openWriter_facts:
  "m_isOpen openWriter" "sink_ok (m_device openWriter)"
  "m_objectOffsets openWriter = [\<lparr>offset = - 1, generation = 65535, isReserved = False\<rparr>]"
  "m_pages openWriter = []"
  "m_catalogReference openWriter = PDFObjectReference_default"
  "m_infoReference openWriter = PDFObjectReference_default"
  by (simp_all add: openWriter_def beginDocument_ok PDFStreamingDocumentWriter_new_def sink_ok_emptySink)

lemma createdWriter_facts:
  "\<not> m_isOpen createdWriter" "isWritable (m_device createdWriter)"
  "m_objectOffsets createdWriter = [\<lparr>offset = - 1, generation = 65535, isReserved = False\<rparr>]"
  "m_pages createdWriter = []"
  by (simp_all add: createdWriter_def PDFStreamingDocumentWriter_new_def isWritable_def emptySink_def)

subsection \<open>Calls that do not return\<close>

lemma writeObject_closed:
  "\<not> m_isOpen w \<Longrightarrow> writeObject ext w obj gen = Some (PDFObjectReference_default, w)"
  by (simp add: writeObject.simps)


lemma writeObject_returns_closed:
  assumes "writeObject ext w obj gen = Some y"
  shows "\<not> m_isOpen w"
  using assms
  apply (rule writeObject.raw_induct [where P = "\<lambda>ext w obj gen y. \<not> m_isOpen w", rotated])
  subgoal premises prems for f e v ob g r
  proof
    assume o: "m_isOpen v"
    with prems(2) obtain inner where "f e (atInnerCall v g) ob 0 = Some inner"
      by (auto simp add: Let_def atInnerCall_def bind_eq_Some_conv)
    then have "\<not> m_isOpen (atInnerCall v g)" by (rule prems(1))
    then show False using o by (simp add: atInnerCall_def)
  qed
  done

lemma writeObject_diverges: "m_isOpen w \<Longrightarrow> writeObject ext w obj gen = None"
  using writeObject_returns_closed [of ext w obj gen] by (cases "writeObject ext w obj gen") auto

lemma writeReservedObject_failure:
  "\<not> (m_isOpen w \<and> canFulfil w r) \<Longrightarrow> writeReservedObject ext w r obj = Some (False, w)"
  by (auto simp add: writeReservedObject_def canFulfil_def unfulfilled_def Let_def)

lemma writeReservedObject_diverges:
  "m_isOpen w \<Longrightarrow> canFulfil w r \<Longrightarrow> writeReservedObject ext w r obj = None"
  by (simp add: writeReservedObject_def canFulfil_def unfulfilled_def Let_def writeObject_diverges)

lemma ensureCatalog_valid:
  "isValid (m_catalogReference w) \<Longrightarrow> ensureCatalog ext w = Some w"
  by (simp add: ensureCatalog_def)

lemma ensureCatalog_diverges:
  "m_isOpen w \<Longrightarrow> \<not> isValid (m_catalogReference w) \<Longrightarrow> ensureCatalog ext w = None"
  by (simp add: ensureCatalog_def createPageTree_def writeObject_diverges)

lemma endDocument_closed:
  "\<not> m_isOpen w \<Longrightarrow> endDocument ext w = Some (Error ''Document is not open.'', w)"
  by (simp add: endDocument_def)

lemma endDocument_success:
  "m_isOpen w \<Longrightarrow> unwrittenReserved (m_objectOffsets w) = None \<Longrightarrow>
   isValid (m_catalogReference w) \<Longrightarrow>
   endDocument ext w =
     Some (Success,
       w\<lparr>m_device := writeTrailer ext w (pos (m_device w))
                        (writeXref (m_objectOffsets w) (m_device w)),
         m_isOpen := False\<rparr>)"
  by (simp add: endDocument_def ensureCatalog_valid Let_def)

lemma endDocument_diverges:
  "m_isOpen w \<Longrightarrow> unwrittenReserved (m_objectOffsets w) = None \<Longrightarrow>
   \<not> isValid (m_catalogReference w) \<Longrightarrow> endDocument ext w = None"
  by (simp add: endDocument_def ensureCatalog_diverges)

lemma endDocument_Success_iff:
  "endDocument ext w = Some (Success, w') \<longleftrightarrow>
     m_isOpen w \<and> unwrittenReserved (m_objectOffsets w) = None
     \<and> isValid (m_catalogReference w)
     \<and> w' = w\<lparr>m_device := writeTrailer ext w (pos (m_device w))
                               (writeXref (m_objectOffsets w) (m_device w)),
                m_isOpen := False\<rparr>"
proof (cases "m_isOpen w")
  case False
  then show ?thesis by (simp add: endDocument_closed)
next
  case True
  show ?thesis
  proof (cases "unwrittenReserved (m_objectOffsets w)")
    case (Some i)
    then show ?thesis using True by (simp add: endDocument_def)
  next
    case None
    show ?thesis
    proof (cases "isValid (m_catalogReference w)")
      case True
      then show ?thesis using \<open>m_isOpen w\<close> None by (auto simp add: endDocument_success)
    next
      case False
      then show ?thesis using \<open>m_isOpen w\<close> None by (simp add: endDocument_diverges)
    qed
  qed
qed



subsection \<open>The writer: object numbers, written objects, reservations\<close>

lemma reservedWriter_facts:
  "m_isOpen reservedWriter" "sink_ok (m_device reservedWriter)"
  "m_objectOffsets reservedWriter =
     [\<lparr>offset = - 1, generation = 65535, isReserved = False\<rparr>,
      \<lparr>offset = - 1, generation = 0, isReserved = True\<rparr>]"
  "m_device reservedWriter = m_device openWriter"
  by (simp_all add: reservedWriter_def reserveObject_def Let_def openWriter_facts)

lemma twoReservedWriter_facts:
  "m_isOpen twoReservedWriter"
  "m_objectOffsets twoReservedWriter =
     [\<lparr>offset = - 1, generation = 65535, isReserved = False\<rparr>,
      \<lparr>offset = - 1, generation = 0, isReserved = True\<rparr>,
      \<lparr>offset = - 1, generation = 0, isReserved = True\<rparr>]"
  by (simp_all add: twoReservedWriter_def reserveObject_def Let_def reservedWriter_facts)

lemma catalogWriter_facts:
  "m_isOpen catalogWriter" "sink_ok (m_device catalogWriter)"
  "m_objectOffsets catalogWriter = [\<lparr>offset = - 1, generation = 65535, isReserved = False\<rparr>]"
  "m_catalogReference catalogWriter = \<lparr>objectNumber = 1, generation = 0\<rparr>"
  "m_infoReference catalogWriter = PDFObjectReference_default"
  "m_device catalogWriter = m_device openWriter"
  by (simp_all add: catalogWriter_def setCatalogReference_def openWriter_facts)

lemma unwrittenReserved_slot0:
  "unwrittenReserved [\<lparr>offset = - 1, generation = 65535, isReserved = False\<rparr>] = None"
  by (simp add: unwrittenReserved_def)

lemma canFulfil_reservedWriter: "canFulfil reservedWriter \<lparr>objectNumber = 1, generation = g\<rparr>"
  by (simp add: canFulfil_def unfulfilled_def reservedWriter_facts)




text \<open>
  C6, as far as the code goes: on an open writer \<^verbatim>\<open>writeReservedObject\<close> returns false
  and leaves the writer as it was when the reference does not denote an existing slot
  that is reserved and not yet written. When it does, the call does not return; so the
  function never returns true.
\<close>

theorem writeReservedObject_result:
  assumes "m_isOpen w"
  shows "(canFulfil w r \<longrightarrow> writeReservedObject ext w r obj = None) \<and>
         (\<not> canFulfil w r \<longrightarrow> writeReservedObject ext w r obj = Some (False, w))"
  using assms by (simp add: writeReservedObject_diverges writeReservedObject_failure)

theorem writeReservedObject_result_witness:
  "m_isOpen reservedWriter \<and>
   canFulfil reservedWriter \<lparr>objectNumber = 1, generation = 0\<rparr> \<and>
   writeReservedObject exampleExternals reservedWriter \<lparr>objectNumber = 1, generation = 0\<rparr> PDFNull
     = None \<and>
   \<not> canFulfil reservedWriter \<lparr>objectNumber = 2, generation = 0\<rparr> \<and>
   writeReservedObject exampleExternals reservedWriter \<lparr>objectNumber = 2, generation = 0\<rparr> PDFNull
     = Some (False, reservedWriter)"
proof -
  have o: "m_isOpen reservedWriter" by (simp add: reservedWriter_facts)
  have c1: "canFulfil reservedWriter \<lparr>objectNumber = 1, generation = 0\<rparr>"
    by (rule canFulfil_reservedWriter)
  have c2: "\<not> canFulfil reservedWriter \<lparr>objectNumber = 2, generation = 0\<rparr>"
    by (simp add: canFulfil_def reservedWriter_facts)
  from writeReservedObject_result [OF o, of "\<lparr>objectNumber = 1, generation = 0\<rparr>"
      exampleExternals PDFNull] c1
  have r1: "writeReservedObject exampleExternals reservedWriter
              \<lparr>objectNumber = 1, generation = 0\<rparr> PDFNull = None"
    by blast
  from writeReservedObject_result [OF o, of "\<lparr>objectNumber = 2, generation = 0\<rparr>"
      exampleExternals PDFNull] c2
  have r2: "writeReservedObject exampleExternals reservedWriter
              \<lparr>objectNumber = 2, generation = 0\<rparr> PDFNull = Some (False, reservedWriter)"
    by blast
  from o c1 r1 c2 r2 show ?thesis by blast
qed

text \<open>
  C9: when slot \<open>N\<close> of an open writer is reserved and not yet written, the
  reference \<open>(N, g')\<close> passes the tests of \<^verbatim>\<open>writeReservedObject\<close> for every generation
  \<open>g'\<close>, whatever generation the slot was reserved with; the call then does not return,
  so it does not succeed.
\<close>

theorem writeReservedObject_any_generation:
  assumes "m_isOpen w" and "N < length (m_objectOffsets w)"
    and "unfulfilled (m_objectOffsets w ! N)"
  shows "canFulfil w \<lparr>objectNumber = int N, generation = g'\<rparr> \<and>
         writeReservedObject ext w \<lparr>objectNumber = int N, generation = g'\<rparr> obj = None"
proof -
  have "canFulfil w \<lparr>objectNumber = int N, generation = g'\<rparr>"
    using assms(2,3) by (simp add: canFulfil_def)
  then show ?thesis using assms(1) by (simp add: writeReservedObject_diverges)
qed

theorem writeReservedObject_any_generation_witness:
  "m_isOpen reservedWriter \<and> (1::nat) < length (m_objectOffsets reservedWriter) \<and>
   unfulfilled (m_objectOffsets reservedWriter ! 1) \<and>
   ObjectEntry.generation (m_objectOffsets reservedWriter ! 1) = 0 \<and>
   writeReservedObject exampleExternals reservedWriter \<lparr>objectNumber = 1, generation = 7\<rparr> PDFNull
     = None"
proof -
  have o: "m_isOpen reservedWriter" by (simp add: reservedWriter_facts)
  have l: "(1::nat) < length (m_objectOffsets reservedWriter)" by (simp add: reservedWriter_facts)
  have u: "unfulfilled (m_objectOffsets reservedWriter ! 1)"
    and g: "ObjectEntry.generation (m_objectOffsets reservedWriter ! 1) = 0"
    by (simp_all add: reservedWriter_facts unfulfilled_def)
  from writeReservedObject_any_generation [OF o l u, of 7 exampleExternals PDFNull]
  have r: "writeReservedObject exampleExternals reservedWriter
             \<lparr>objectNumber = 1, generation = 7\<rparr> PDFNull = None"
    by simp
  from o l u g r show ?thesis by blast
qed

text \<open>
  C3: \<^verbatim>\<open>endDocument\<close> on an open writer with a slot that is reserved and was never
  written returns the error naming the lowest such object number and leaves the writer
  as it was: the sink, the offset table and every other field are unchanged, so no
  object, cross-reference table or trailer is written.
\<close>

theorem endDocument_unfulfilled_reservation:
  assumes "m_isOpen w"
    and "\<exists>i. 1 \<le> i \<and> i < length (m_objectOffsets w) \<and> unfulfilled (m_objectOffsets w ! i)"
  shows "\<exists>N. 1 \<le> N \<and> N < length (m_objectOffsets w) \<and> unfulfilled (m_objectOffsets w ! N)
           \<and> (\<forall>j. 1 \<le> j \<and> j < N \<longrightarrow> \<not> unfulfilled (m_objectOffsets w ! j))
           \<and> endDocument ext w =
               Some (Error (''Reserved object '' @ number (int N) @ '' was never written.''), w)"
proof -
  from assms(2) have "unwrittenReserved (m_objectOffsets w) \<noteq> None"
    by (simp add: unwrittenReserved_None)
  then obtain N where N: "unwrittenReserved (m_objectOffsets w) = Some N" by blast
  then have "endDocument ext w =
      Some (Error (''Reserved object '' @ number (int N) @ '' was never written.''), w)"
    using assms(1) by (simp add: endDocument_def)
  with N show ?thesis unfolding unwrittenReserved_Some by blast
qed

theorem endDocument_unfulfilled_reservation_witness:
  "m_isOpen twoReservedWriter \<and>
   unfulfilled (m_objectOffsets twoReservedWriter ! 1) \<and>
   unfulfilled (m_objectOffsets twoReservedWriter ! 2) \<and>
   endDocument exampleExternals twoReservedWriter =
     Some (Error ''Reserved object 1 was never written.'', twoReservedWriter)"
proof -
  have o: "m_isOpen twoReservedWriter" by (simp add: twoReservedWriter_facts)
  have u1: "unfulfilled (m_objectOffsets twoReservedWriter ! 1)"
    and u2: "unfulfilled (m_objectOffsets twoReservedWriter ! 2)"
    by (simp_all add: twoReservedWriter_facts unfulfilled_def)
  from u2 have e: "\<exists>i. 1 \<le> i \<and> i < length (m_objectOffsets twoReservedWriter)
                  \<and> unfulfilled (m_objectOffsets twoReservedWriter ! i)"
    by (intro exI[of _ 2]) (simp add: twoReservedWriter_facts)
  from endDocument_unfulfilled_reservation [OF o e, of exampleExternals]
  obtain N where N: "1 \<le> N"
    and l: "\<forall>j. 1 \<le> j \<and> j < N \<longrightarrow> \<not> unfulfilled (m_objectOffsets twoReservedWriter ! j)"
    and r: "endDocument exampleExternals twoReservedWriter =
              Some (Error (''Reserved object '' @ number (int N) @ '' was never written.''),
                    twoReservedWriter)"
    by blast
  have "N = 1"
  proof (rule ccontr)
    assume "N \<noteq> 1"
    with N have "1 \<le> (1::nat) \<and> 1 < N" by simp
    with l have "\<not> unfulfilled (m_objectOffsets twoReservedWriter ! 1)" by blast
    with u1 show False by blast
  qed
  with r o u1 u2 show ?thesis by (simp add: number_1)
qed

subsection \<open>The writer over a sink whose writes fail, and the open flag\<close>


lemma writable_dev_write [simp]: "writable (dev_write d bytes) = writable d"
  by (simp add: dev_write_def)

lemma writable_writeCRLF [simp]: "writable (writeCRLF d) = writable d"
  by (simp add: writeCRLF_def)








text \<open>
  C5, amended: the writer has one flag. A constructed writer is not open,
  \<^verbatim>\<open>beginDocument\<close> on a writable device opens it and a successful \<^verbatim>\<open>endDocument\<close>
  closes it. On a writer that is not open \<^verbatim>\<open>writeObject\<close>, \<^verbatim>\<open>writeReservedObject\<close> and
  \<^verbatim>\<open>endDocument\<close> fail and leave the writer as it was, \<^verbatim>\<open>writeObject\<close> returning the
  invalid reference. \<^verbatim>\<open>reserveObject\<close> and \<^verbatim>\<open>addPage\<close> do not test the flag: they
  allocate a reserved slot and append the page reference in any state, writing no bytes.
\<close>

theorem operations_outside_open:
  "\<not> m_isOpen (PDFStreamingDocumentWriter_new device) \<and>
   (isWritable (m_device w) \<longrightarrow>
      fst (beginDocument ext w v) \<and> m_isOpen (snd (beginDocument ext w v))) \<and>
   (endDocument ext w = Some (Success, w') \<longrightarrow> \<not> m_isOpen w') \<and>
   (\<not> m_isOpen w \<longrightarrow>
      writeObject ext w obj g = Some (PDFObjectReference_default, w) \<and>
      \<not> isValid PDFObjectReference_default \<and>
      writeReservedObject ext w r obj = Some (False, w) \<and>
      endDocument ext w = Some (Error ''Document is not open.'', w) \<and>
      reserveObject w g =
        (\<lparr>objectNumber = int (length (m_objectOffsets w)), generation = g\<rparr>,
         w\<lparr>m_objectOffsets :=
             m_objectOffsets w @ [\<lparr>offset = - 1, generation = g, isReserved = True\<rparr>]\<rparr>) \<and>
      addPage w p = w\<lparr>m_pages := m_pages w @ [p]\<rparr>)"
  by (auto simp add: PDFStreamingDocumentWriter_new_def beginDocument_def Let_def writeObject_closed
        writeReservedObject_failure endDocument_closed reserveObject_def addPage_def
        isValid_def PDFObjectReference_default_def endDocument_Success_iff)

theorem operations_outside_open_witness:
  "isWritable (m_device createdWriter) \<and> \<not> m_isOpen createdWriter \<and>
   m_isOpen catalogWriter \<and>
   (\<exists>w'. endDocument exampleExternals catalogWriter = Some (Success, w') \<and> \<not> m_isOpen w') \<and>
   m_isOpen (snd (beginDocument exampleExternals createdWriter \<lparr>major = 1, minor = 7\<rparr>)) \<and>
   writeObject exampleExternals createdWriter PDFNull 0 = Some (PDFObjectReference_default, createdWriter) \<and>
   writeReservedObject exampleExternals createdWriter \<lparr>objectNumber = 1, generation = 0\<rparr> PDFNull =
     Some (False, createdWriter) \<and>
   endDocument exampleExternals createdWriter = Some (Error ''Document is not open.'', createdWriter)"
proof -
  have a: "isWritable (m_device createdWriter)" and b: "\<not> m_isOpen createdWriter"
    by (simp_all add: createdWriter_facts)
  have u: "unwrittenReserved (m_objectOffsets catalogWriter) = None"
    by (simp add: catalogWriter_facts unwrittenReserved_slot0)
  have v: "isValid (m_catalogReference catalogWriter)"
    by (simp add: catalogWriter_facts isValid_def)
  note s = endDocument_success [OF catalogWriter_facts(1) u v, of exampleExternals]
  note t1 = operations_outside_open [of emptySink createdWriter exampleExternals
      "\<lparr>major = 1, minor = 7\<rparr>" _ PDFNull 0 "\<lparr>objectNumber = 1, generation = 0\<rparr>"
      PDFObjectReference_default]
  note t2 = operations_outside_open [of emptySink catalogWriter exampleExternals
      "\<lparr>major = 1, minor = 7\<rparr>" _ PDFNull 0 "\<lparr>objectNumber = 1, generation = 0\<rparr>"
      PDFObjectReference_default]
  from t2 s have c: "\<exists>w'. endDocument exampleExternals catalogWriter = Some (Success, w') \<and> \<not> m_isOpen w'"
    by blast
  from t1 a b c catalogWriter_facts(1) show ?thesis by blast
qed

text \<open>
  C5 as stated fails: on a writer that was never opened \<^verbatim>\<open>reserveObject\<close> returns a
  valid reference and adds a slot, and \<^verbatim>\<open>addPage\<close> adds the page.
\<close>

theorem operations_outside_open_counterexample:
  "\<not> m_isOpen createdWriter \<and>
   getObjectCount createdWriter = 1 \<and>
   isValid (fst (reserveObject createdWriter 0)) \<and>
   getObjectCount (snd (reserveObject createdWriter 0)) = 2 \<and>
   m_pages createdWriter = [] \<and>
   m_pages (addPage createdWriter \<lparr>objectNumber = 1, generation = 0\<rparr>) =
     [\<lparr>objectNumber = 1, generation = 0\<rparr>]"
  by (simp add: createdWriter_facts getObjectCount_def reserveObject_def Let_def isValid_def
        addPage_def)

subsection \<open>The cross-reference table\<close>




lemma number_0: "number 0 = ''0''"
  by (simp add: number_def digits.simps)


lemma number_65535: "number 65535 = ''65535''"
  by (simp add: number_def digits.simps)

lemma xrefRowBytes_slot0:
  "xrefRowBytes 0 \<lparr>offset = - 1, generation = 65535, isReserved = False\<rparr>
     = ''0000000000 65535 f'' @ CRLF"
  by (simp add: xrefRowBytes_def rightJustified_def number_0 number_65535 eval_nat_numeral)




lemma xrefRows_one:
  "concat (map (\<lambda>i. xrefRowBytes i ([\<lparr>offset = - 1, generation = 65535, isReserved = False\<rparr>] ! i))
       [0..<length [\<lparr>offset = - 1, generation = 65535, isReserved = False\<rparr>]])
     = ''0000000000 65535 f'' @ CRLF"
  by (simp add: xrefRowBytes_slot0)





subsection \<open>The merger\<close>

lemma emitStep_null:
  "isNull (object (objs ! i)) \<Longrightarrow> emitStep ext objs i (w, M) = Some (w, M)"
  by (simp add: emitStep_def)

lemma emitStep_diverges:
  assumes "m_isOpen w" and "\<not> isNull (object (objs ! i))"
    and "M (oldRef objs i) = Some r" and "canFulfil w r"
  shows "emitStep ext objs i (w, M) = None"
  using assms by (simp add: emitStep_def map_subscript_def writeReservedObject_diverges)

lemma emitLoop_diverges:
  assumes "m_isOpen w"
    and "\<And>j. j \<in> set is \<Longrightarrow> \<not> isNull (object (objs ! j))
            \<Longrightarrow> \<exists>r. M (oldRef objs j) = Some r \<and> canFulfil w r"
    and "\<exists>i \<in> set is. \<not> isNull (object (objs ! i))"
  shows "emitLoop ext objs is (w, M) = None"
  using assms(2,3)
proof (induction "is")
  case Nil
  then show ?case by simp
next
  case (Cons j js)
  show ?case
  proof (cases "isNull (object (objs ! j))")
    case True
    then have "\<exists>i \<in> set js. \<not> isNull (object (objs ! i))" using Cons.prems(2) by auto
    then have "emitLoop ext objs js (w, M) = None" using Cons.IH Cons.prems(1) by simp
    then show ?thesis using True by (simp add: emitStep_null)
  next
    case False
    then obtain r where "M (oldRef objs j) = Some r" "canFulfil w r"
      using Cons.prems(1) [of j] by auto
    then show ?thesis using False assms(1) by (simp add: emitStep_diverges)
  qed
qed

lemma reservePass_eq:
  "reservePass objs w =
     (w\<lparr>m_objectOffsets := m_objectOffsets w
          @ replicate (length (liveSlots objs)) reservedEntry\<rparr>,
      mappingOf objs (allocation (liveSlots objs) (length (m_objectOffsets w))))"
  unfolding reservePass_def liveSlots_def
  by (simp add: reserve_fold)

lemma reservePass_canFulfil:
  assumes "j \<in> set (liveSlots objs)"
  shows "\<exists>r. snd (reservePass objs w) (oldRef objs j) = Some r
            \<and> canFulfil (fst (reservePass objs w)) r"
proof -
  let ?live = "liveSlots objs"
  let ?n = "length (m_objectOffsets w)"
  have d: "distinct ?live" by (simp add: liveSlots_def)
  from assms obtain k where k: "(j, k) \<in> set (allocation ?live ?n)"
    using fst_set_allocation [of ?live ?n] by force
  then have "k \<in> set [?n..<?n + length ?live]"
    unfolding allocation_def by (rule set_zip_rightD)
  then have r: "?n \<le> k" "k < ?n + length ?live" by simp_all
  have m: "snd (reservePass objs w) (oldRef objs j) = Some (newRef k)"
    using mappingOf_hit [OF d k] by (simp add: reservePass_eq)
  have "canFulfil (fst (reservePass objs w)) (newRef k)"
    using r by (simp add: reservePass_eq canFulfil_def newRef_def nth_append unfulfilled_def
        reservedEntry_def)
  with m show ?thesis by blast
qed

lemma liveSlots_exampleDocument: "liveSlots (objects exampleDocument) = [1]"
  by (simp add: liveSlots_def exampleDocument_def)

text \<open>
  C2, as far as the code goes: for a merger whose writer is open, the first loop of
  \<^verbatim>\<open>addDocument\<close> reserves one slot at generation 0 for every source slot from 1 on
  that holds an object, in ascending order, and maps the source reference to the new
  one. When the document has such a slot the second loop does not return, because its
  first \<^verbatim>\<open>writeReservedObject\<close> does not, and neither does \<^verbatim>\<open>addDocument\<close>: no object
  is completed and no page is added.
\<close>

theorem addDocument_never_returns:
  assumes "m_writer m = Some w" and "m_isOpen w" and "liveSlots (objects document) \<noteq> []"
  shows
   "reservePass (objects document) w =
      (w\<lparr>m_objectOffsets := m_objectOffsets w
           @ replicate (length (liveSlots (objects document))) reservedEntry\<rparr>,
       mappingOf (objects document)
         (allocation (liveSlots (objects document)) (length (m_objectOffsets w)))) \<and>
    emitPass ext (objects document) (reservePass (objects document) w) = None \<and>
    addDocument ext m document documentIndex namespaceFields = None"
proof -
  let ?objs = "objects document"
  let ?st = "reservePass ?objs w"
  have o: "m_isOpen (fst ?st)" using assms(2) by (simp add: reservePass_eq)
  have a: "\<exists>r. snd ?st (oldRef ?objs j) = Some r \<and> canFulfil (fst ?st) r"
    if "j \<in> set [1..<length ?objs]" "\<not> isNull (object (?objs ! j))" for j
  proof -
    from that have "j \<in> set (liveSlots ?objs)" by (simp add: liveSlots_def)
    then show ?thesis by (rule reservePass_canFulfil)
  qed
  from assms(3) obtain i where "i \<in> set (liveSlots ?objs)" by (cases "liveSlots ?objs") auto
  then have e: "\<exists>i \<in> set [1..<length ?objs]. \<not> isNull (object (?objs ! i))"
    by (auto simp add: liveSlots_def)
  have "emitLoop ext ?objs [1..<length ?objs] (fst ?st, snd ?st) = None"
    using o a e by (rule emitLoop_diverges)
  then have p: "emitPass ext ?objs ?st = None" by (simp add: emitPass_def)
  then have "addDocument ext m document documentIndex namespaceFields = None"
    using assms(1,2) by (simp add: addDocument_def isOpen_def)
  with p show ?thesis by (simp add: reservePass_eq)
qed

theorem addDocument_never_returns_witness:
  "m_writer exampleMerger = Some openWriter \<and> m_isOpen openWriter \<and>
   liveSlots (objects exampleDocument) = [1] \<and>
   fst (reservePass (objects exampleDocument) openWriter) = snd (reserveObject openWriter 0) \<and>
   snd (reservePass (objects exampleDocument) openWriter) \<lparr>objectNumber = 1, generation = 3\<rparr>
     = Some \<lparr>objectNumber = 1, generation = 0\<rparr> \<and>
   replaceReferences (object (objects exampleDocument ! 1))
       (snd (reservePass (objects exampleDocument) openWriter))
     = PDFReference \<lparr>objectNumber = 1, generation = 0\<rparr> \<and>
   canFulfil (snd (reserveObject openWriter 0)) \<lparr>objectNumber = 1, generation = 0\<rparr> \<and>
   writeReservedObject exampleExternals (snd (reserveObject openWriter 0))
       \<lparr>objectNumber = 1, generation = 0\<rparr>
       (PDFReference \<lparr>objectNumber = 1, generation = 0\<rparr>) = None \<and>
   emitPass exampleExternals (objects exampleDocument)
       (reservePass (objects exampleDocument) openWriter) = None \<and>
   addDocument exampleExternals exampleMerger exampleDocument 0 False = None \<and>
   addDocument exampleExternals exampleMerger emptyDocument 0 False =
     Some (True, exampleMerger\<lparr>m_totalDocuments := 1\<rparr>)"
proof -
  let ?objs = "objects exampleDocument"
  let ?w1 = "snd (reserveObject openWriter 0)"
  have w: "m_writer exampleMerger = Some openWriter" by (simp add: exampleMerger_def)
  note o = openWriter_facts(1)
  note l = liveSlots_exampleDocument
  have n: "liveSlots ?objs \<noteq> []" by (simp add: l)
  note t = addDocument_never_returns [OF w o n, of exampleExternals 0 False]
  note t1 = t [THEN conjunct1]
  note e = t [THEN conjunct2, THEN conjunct1]
  note a = t [THEN conjunct2, THEN conjunct2]
  have f: "fst (reservePass ?objs openWriter) = ?w1"
    unfolding t1 l
    by (simp add: reserveObject_def Let_def reservedEntry_def)
  have s: "snd (reservePass ?objs openWriter) \<lparr>objectNumber = 1, generation = 3\<rparr>
             = Some \<lparr>objectNumber = 1, generation = 0\<rparr>"
    unfolding t1 l openWriter_facts(3)
    by (simp add: allocation_def mappingOf_def oldRef_def newRef_def exampleDocument_def)
  have x: "replaceReferences (object (?objs ! 1)) (snd (reservePass ?objs openWriter))
             = PDFReference \<lparr>objectNumber = 1, generation = 0\<rparr>"
    using s by (simp add: exampleDocument_def)
  have o1: "m_isOpen ?w1" by (simp add: reserveObject_def Let_def o)
  have c: "canFulfil ?w1 \<lparr>objectNumber = 1, generation = 0\<rparr>"
    by (simp add: canFulfil_def unfulfilled_def reserveObject_def Let_def openWriter_facts(3))
  have r: "writeReservedObject exampleExternals ?w1 \<lparr>objectNumber = 1, generation = 0\<rparr>
             (PDFReference \<lparr>objectNumber = 1, generation = 0\<rparr>) = None"
    using o1 c by (rule writeReservedObject_diverges)
  have b: "addDocument exampleExternals exampleMerger emptyDocument 0 False =
     Some (True, exampleMerger\<lparr>m_totalDocuments := 1\<rparr>)"
    using o by (simp add: addDocument_def isOpen_def exampleMerger_def emptyDocument_def
          reservePass_def emitPass_def pagePass_def)
  from w o l f s x c r e a b show ?thesis by blast
qed

end
